theory Spec2Isabelle
  imports Complex_Main "HOL-Library.Sublist"
begin

section \<open>Python values\<close>

text \<open>
  The values the services handle are the ones \<^verbatim>\<open>json.load\<close> produces, plus
  dictionaries keyed by other primitives than strings (which \<^verbatim>\<open>json.dump\<close> accepts).
  A float is a finite double (a rational number) or one of the three special values;
  no floating-point arithmetic is performed anywhere in the modelled code, only
  \<^verbatim>\<open>int(x)\<close>, comparisons and truth tests.  A dictionary is an association list in
  insertion order; keys that are floats are left out.  A string is the list of the bytes
  of its UTF-8 form (an unpaired code point D800 to DFFF in three bytes), so that ASCII text is the
  list of its characters, and emptiness, equality and the substring test on the bytes are
  those on the text.
\<close>

datatype pyfloat = Finite rat | PosInf | NegInf | NaN

datatype pykey = KStr string | KInt int | KBool bool | KNone

datatype pyval =
    PNone
  | PBool bool
  | PInt int
  | PFloat pyfloat
  | PStr string
  | PList "pyval list"
  | PDict "(pykey \<times> pyval) list"

text \<open>The exception classes the modelled code can meet; all derive from \<^verbatim>\<open>Exception\<close>.\<close>

datatype py_error =
    ValueError
  | TypeError
  | OverflowError
  | KeyError
  | AttributeError
  | JSONDecodeError
  | OSError
  | UnicodeDecodeError
  | RecursionError

text \<open>
  The parts of the interpreter and its library that are not modelled.  Every definition
  that depends on one of them takes this record as its first argument \<open>R\<close>, and every
  general result below holds whatever \<open>R\<close> is:
  \<^item> \<open>repr_of\<close>: the text \<^verbatim>\<open>str\<close> gives for a float, a list or a dictionary;
  \<^item> \<open>unicode_lower\<close>: \<^verbatim>\<open>str.lower()\<close> on a text that is not ASCII;
  \<^item> \<open>unicode_int\<close>: \<^verbatim>\<open>int()\<close> on a text that is not ASCII (\<open>None\<close> for ValueError);
  \<^item> \<open>dump_raises\<close>: the exception, if any, with which \<^verbatim>\<open>json.dump\<close> to a file opened
    as UTF-8 ends on a value (an integer beyond the limit on digits, a string that cannot
    be encoded, nesting deeper than the interpreter allows).
\<close>

record runtime =
  repr_of :: "pyval \<Rightarrow> string"
  unicode_lower :: "string \<Rightarrow> string"
  unicode_int :: "string \<Rightarrow> int option"
  dump_raises :: "pyval \<Rightarrow> py_error option"

subsection \<open>Built-ins used by the services\<close>

definition is_ascii :: "string \<Rightarrow> bool" where
  "is_ascii s = list_all (\<lambda>c. \<not> digit7 c) s"

text \<open>\<^verbatim>\<open>bool(x)\<close>, as used by \<^verbatim>\<open>if not data\<close>.\<close>

fun truthy :: "pyval \<Rightarrow> bool" where
  "truthy PNone = False"
| "truthy (PBool b) = b"
| "truthy (PInt n) = (n \<noteq> 0)"
| "truthy (PFloat (Finite r)) = (r \<noteq> 0)"
| "truthy (PFloat _) = True"
| "truthy (PStr s) = (s \<noteq> [])"
| "truthy (PList xs) = (xs \<noteq> [])"
| "truthy (PDict kvs) = (kvs \<noteq> [])"

fun is_list :: "pyval \<Rightarrow> bool" where
  "is_list (PList _) = True"
| "is_list _ = False"

fun is_dict :: "pyval \<Rightarrow> bool" where
  "is_dict (PDict _) = True"
| "is_dict _ = False"

text \<open>Decimal digits, and the characters \<^verbatim>\<open>int()\<close> skips around an ASCII literal.\<close>

definition digit_val :: "char \<Rightarrow> nat option" where
  "digit_val c = map_of
     [(CHR ''0'', 0), (CHR ''1'', 1), (CHR ''2'', 2), (CHR ''3'', 3), (CHR ''4'', 4),
      (CHR ''5'', 5), (CHR ''6'', 6), (CHR ''7'', 7), (CHR ''8'', 8), (CHR ''9'', 9)] c"

definition is_space :: "char \<Rightarrow> bool" where
  "is_space c = (c \<in> set [CHR '' '', CHR 0x09, CHR 0x0A, CHR 0x0B, CHR 0x0C, CHR 0x0D])"

definition strip :: "string \<Rightarrow> string" where
  "strip s = rev (dropWhile is_space (rev (dropWhile is_space s)))"

text \<open>
  The digits of an integer literal: at least one digit, single underscores allowed
  between digits only.  The flag says that the previous character was not a digit.
\<close>

fun scan_digits :: "bool \<Rightarrow> nat \<Rightarrow> string \<Rightarrow> nat option" where
  "scan_digits u acc [] = (if u then None else Some acc)"
| "scan_digits u acc (c # cs) =
     (case digit_val c of
        Some d \<Rightarrow> scan_digits False (acc * 10 + d) cs
      | None \<Rightarrow> if c = CHR ''_'' \<and> \<not> u then scan_digits True acc cs else None)"

text \<open>
  \<^verbatim>\<open>int(s)\<close> for a string: \<open>None\<close> stands for ValueError.  Around an ASCII literal
  the six ASCII blanks are skipped, one sign is allowed, and a literal of more than 4300
  digits (the interpreter's default limit) is refused.
\<close>

definition max_str_digits :: nat where
  "max_str_digits = 4300"

definition int_of_str :: "runtime \<Rightarrow> string \<Rightarrow> int option" where
  "int_of_str R s =
     (if \<not> is_ascii s then unicode_int R s
      else if max_str_digits < length (filter (\<lambda>c. digit_val c \<noteq> None) s) then None
      else case strip s of
        c # cs \<Rightarrow>
          if c = CHR ''-'' then map_option (\<lambda>n. - int n) (scan_digits True 0 cs)
          else if c = CHR ''+'' then map_option int (scan_digits True 0 cs)
          else map_option int (scan_digits True 0 (c # cs))
      | [] \<Rightarrow> None)"

text \<open>\<^verbatim>\<open>int(x)\<close> of a float truncates towards zero.\<close>

definition trunc :: "rat \<Rightarrow> int" where
  "trunc r = (if 0 \<le> r then \<lfloor>r\<rfloor> else \<lceil>r\<rceil>)"

text \<open>\<^verbatim>\<open>int(value)\<close>.\<close>

fun py_int :: "runtime \<Rightarrow> pyval \<Rightarrow> py_error + int" where
  "py_int R PNone = Inl TypeError"
| "py_int R (PBool b) = Inr (if b then 1 else 0)"
| "py_int R (PInt n) = Inr n"
| "py_int R (PFloat (Finite r)) = Inr (trunc r)"
| "py_int R (PFloat PosInf) = Inl OverflowError"
| "py_int R (PFloat NegInf) = Inl OverflowError"
| "py_int R (PFloat NaN) = Inl ValueError"
| "py_int R (PStr s) = (case int_of_str R s of Some n \<Rightarrow> Inr n | None \<Rightarrow> Inl ValueError)"
| "py_int R (PList _) = Inl TypeError"
| "py_int R (PDict _) = Inl TypeError"

section \<open>data\_loader: safe coercions\<close>

text \<open>
  \<^verbatim>\<open>
  def safe_int(value, default=0):
      try:
          return int(value)
      except (ValueError, TypeError):
          return default
  \<close>
  Any other exception of \<^verbatim>\<open>int\<close> leaves the function.
\<close>

definition safe_int :: "runtime \<Rightarrow> pyval \<Rightarrow> int \<Rightarrow> py_error + int" where
  "safe_int R v dflt =
     (case py_int R v of
        Inr n \<Rightarrow> Inr n
      | Inl e \<Rightarrow> if e = ValueError \<or> e = TypeError then Inr dflt else Inl e)"

text \<open>
  \<^verbatim>\<open>
  def safe_list(value, default=None):
      if default is None:
          default = []
      if isinstance(value, list):
          return value
      elif value is None:
          return default
      else:
          return [value]
  \<close>
\<close>

definition safe_list :: "pyval \<Rightarrow> pyval list option \<Rightarrow> pyval list" where
  "safe_list v dflt =
     (let d = (case dflt of None \<Rightarrow> [] | Some l \<Rightarrow> l) in
      case v of
        PList xs \<Rightarrow> xs
      | PNone \<Rightarrow> d
      | _ \<Rightarrow> [v])"

section \<open>Strings\<close>

text \<open>
  \<^verbatim>\<open>str.lower()\<close>: on ASCII text only the letters A to Z change; on any other text
  the result is the library's.
\<close>

definition lower_char :: "char \<Rightarrow> char" where
  "lower_char c =
     (case map_of (zip ''ABCDEFGHIJKLMNOPQRSTUVWXYZ'' ''abcdefghijklmnopqrstuvwxyz'') c of
        Some l \<Rightarrow> l
      | None \<Rightarrow> c)"

definition ascii_lower :: "string \<Rightarrow> string" where
  "ascii_lower s = map lower_char s"

definition py_lower :: "runtime \<Rightarrow> string \<Rightarrow> string" where
  "py_lower R s = (if is_ascii s then ascii_lower s else unicode_lower R s)"

text \<open>\<^verbatim>\<open>needle in haystack\<close> for two strings: a scan for the first position that matches.\<close>

fun str_contains :: "string \<Rightarrow> string \<Rightarrow> bool" where
  "str_contains q [] = (q = [])"
| "str_contains q (c # cs) = (prefix q (c # cs) \<or> str_contains q cs)"

text \<open>\<^verbatim>\<open>str(n)\<close> for an integer.\<close>

definition digit_char :: "nat \<Rightarrow> char" where
  "digit_char d = ''0123456789'' ! d"

fun str_nat :: "nat \<Rightarrow> string" where
  "str_nat n = (if n < 10 then [digit_char n] else str_nat (n div 10) @ [digit_char (n mod 10)])"

declare str_nat.simps [simp del]

definition str_int :: "int \<Rightarrow> string" where
  "str_int i = (if i < 0 then CHR ''-'' # str_nat (nat (- i)) else str_nat (nat i))"

text \<open>
  \<^verbatim>\<open>str(value)\<close>, on the values \<^verbatim>\<open>json.load\<close> returns; it raises on none of them.
\<close>

fun py_str :: "runtime \<Rightarrow> pyval \<Rightarrow> string" where
  "py_str R PNone = ''None''"
| "py_str R (PBool b) = (if b then ''True'' else ''False'')"
| "py_str R (PInt n) = str_int n"
| "py_str R (PStr s) = s"
| "py_str R (PFloat f) = repr_of R (PFloat f)"
| "py_str R (PList xs) = repr_of R (PList xs)"
| "py_str R (PDict kvs) = repr_of R (PDict kvs)"

section \<open>Dictionaries and the operators applied to a raw record\<close>

definition dict_get :: "(pykey \<times> pyval) list \<Rightarrow> string \<Rightarrow> pyval option" where
  "dict_get kvs k = map_of kvs (KStr k)"

text \<open>\<^verbatim>\<open>d[k] = v\<close>: a key already present keeps its place and takes the new value.\<close>

fun dict_set :: "(pykey \<times> pyval) list \<Rightarrow> pykey \<Rightarrow> pyval \<Rightarrow> (pykey \<times> pyval) list" where
  "dict_set [] k v = [(k, v)]"
| "dict_set ((k', v') # kvs) k v =
     (if k' = k then (k', v) # kvs else (k', v') # dict_set kvs k v)"

text \<open>
  \<^verbatim>\<open>field in data\<close> with a string on the left: key membership for a dictionary,
  element membership for a list, substring test for a string, TypeError otherwise.
\<close>

fun py_in :: "string \<Rightarrow> pyval \<Rightarrow> py_error + bool" where
  "py_in f (PDict kvs) = Inr (dict_get kvs f \<noteq> None)"
| "py_in f (PList xs) = Inr (PStr f \<in> set xs)"
| "py_in f (PStr s) = Inr (str_contains f s)"
| "py_in f PNone = Inl TypeError"
| "py_in f (PBool _) = Inl TypeError"
| "py_in f (PInt _) = Inl TypeError"
| "py_in f (PFloat _) = Inl TypeError"

text \<open>\<^verbatim>\<open>item[key]\<close> with a string key.\<close>

fun py_getitem :: "pyval \<Rightarrow> string \<Rightarrow> py_error + pyval" where
  "py_getitem (PDict kvs) k = (case dict_get kvs k of Some v \<Rightarrow> Inr v | None \<Rightarrow> Inl KeyError)"
| "py_getitem _ k = Inl TypeError"

text \<open>\<^verbatim>\<open>item.get(key, default)\<close>: only dictionaries have the method.\<close>

fun py_get :: "pyval \<Rightarrow> string \<Rightarrow> pyval \<Rightarrow> py_error + pyval" where
  "py_get (PDict kvs) k d = (case dict_get kvs k of Some v \<Rightarrow> Inr v | None \<Rightarrow> Inr d)"
| "py_get _ k d = Inl AttributeError"

text \<open>Sequencing of computations that may raise.\<close>

definition andthen :: "py_error + 'a \<Rightarrow> ('a \<Rightarrow> py_error + 'b) \<Rightarrow> py_error + 'b" where
  "andthen m f = (case m of Inl e \<Rightarrow> Inl e | Inr x \<Rightarrow> f x)"

section \<open>Files and JSON documents\<close>

text \<open>
  A JSON text is represented by the document it denotes; the concrete syntax
  (indentation, escapes, the digits of a float) belongs to the \<^verbatim>\<open>json\<close> library and is
  not modelled.  An object of a document is a list of members and may repeat a name.
\<close>

datatype jdoc =
    DNull
  | DBool bool
  | DInt int
  | DFloat pyfloat
  | DStr string
  | DArr "jdoc list"
  | DObj "(string \<times> jdoc) list"

text \<open>\<^verbatim>\<open>json.load\<close> on a well-formed text: members are stored in turn, so a repeated
  name keeps its first place and its last value.\<close>

definition dict_of_members :: "(string \<times> pyval) list \<Rightarrow> (pykey \<times> pyval) list" where
  "dict_of_members ms = foldl (\<lambda>d (k, v). dict_set d (KStr k) v) [] ms"

primrec json_decode :: "jdoc \<Rightarrow> pyval" where
  "json_decode DNull = PNone"
| "json_decode (DBool b) = PBool b"
| "json_decode (DInt n) = PInt n"
| "json_decode (DFloat f) = PFloat f"
| "json_decode (DStr s) = PStr s"
| "json_decode (DArr xs) = PList (map json_decode xs)"
| "json_decode (DObj ms) = PDict (dict_of_members (map (map_prod id json_decode) ms))"

text \<open>The document \<^verbatim>\<open>json.dump\<close> writes when it does not raise: every key is written as a string.\<close>

fun key_str :: "pykey \<Rightarrow> string" where
  "key_str (KStr s) = s"
| "key_str (KInt n) = str_int n"
| "key_str (KBool b) = (if b then ''true'' else ''false'')"
| "key_str KNone = ''null''"

primrec json_encode :: "pyval \<Rightarrow> jdoc" where
  "json_encode PNone = DNull"
| "json_encode (PBool b) = DBool b"
| "json_encode (PInt n) = DInt n"
| "json_encode (PFloat f) = DFloat f"
| "json_encode (PStr s) = DStr s"
| "json_encode (PList xs) = DArr (map json_encode xs)"
| "json_encode (PDict kvs) = DObj (map (map_prod key_str json_encode) kvs)"

text \<open>
  The state of a path.  \<open>Absent\<close>: nothing is there.  \<open>Unreachable\<close>: the path cannot
  be examined, \<^verbatim>\<open>stat\<close> fails with an error other than the few that mean absence (a
  name longer than the file system allows, a directory that may not be searched).
  \<open>Present\<close>: something is there, on which opening, reading and parsing either raise
  (a directory, an unreadable file, bytes that are not UTF-8, a malformed text, an integer
  literal beyond the limit) or give a document.  \<open>writable\<close> says whether creating the
  parent directories and opening the path for writing succeed.
\<close>

type_synonym path = string

datatype node = Absent | Unreachable | Present "py_error + jdoc"

record filesystem =
  files :: "path \<Rightarrow> node"
  writable :: "path \<Rightarrow> bool"

text \<open>
  \<^verbatim>\<open>file_path.exists()\<close>: False when nothing is there, True when something is, and the
  error of \<^verbatim>\<open>stat\<close> raised again when the path cannot be examined.
\<close>

definition path_exists :: "filesystem \<Rightarrow> path \<Rightarrow> py_error + bool" where
  "path_exists fs p =
     (case files fs p of
        Absent \<Rightarrow> Inr False
      | Unreachable \<Rightarrow> Inl OSError
      | Present r \<Rightarrow> Inr True)"

text \<open>\<^verbatim>\<open>with open(file_path, "r", encoding="utf-8") as f: data = json.load(f)\<close>\<close>

definition read_json :: "filesystem \<Rightarrow> path \<Rightarrow> py_error + pyval" where
  "read_json fs p =
     (case files fs p of
        Absent \<Rightarrow> Inl OSError
      | Unreachable \<Rightarrow> Inl OSError
      | Present (Inl e) \<Rightarrow> Inl e
      | Present (Inr d) \<Rightarrow> Inr (json_decode d))"

text \<open>
  \<^verbatim>\<open>
  def load_json(file_path):
      if not file_path.exists():
          return None
      try:
          with open(file_path, "r", encoding="utf-8") as f:
              data = json.load(f)
          return data
      except json.JSONDecodeError as e:
          return None
      except Exception as e:
          return None
  \<close>
  The test of existence stands before the \<^verbatim>\<open>try\<close>: an exception of it leaves the
  function.  The two handlers return the same value.
\<close>

definition load_json :: "filesystem \<Rightarrow> path \<Rightarrow> py_error + pyval" where
  "load_json fs p =
     andthen (path_exists fs p) (\<lambda>found.
     if \<not> found then Inr PNone
     else case read_json fs p of
            Inr data \<Rightarrow> Inr data
          | Inl e \<Rightarrow> if e = JSONDecodeError then Inr PNone else Inr PNone)"

text \<open>
  \<^verbatim>\<open>
  def save_json(file_path, data, indent=2):
      try:
          file_path.parent.mkdir(parents=True, exist_ok=True)
          with open(file_path, "w", encoding="utf-8") as f:
              json.dump(data, f, indent=indent, ensure_ascii=False)
          return True
      except Exception as e:
          return False
  \<close>
  The function returns its flag and leaves a new file system behind.  The body of the
  \<^verbatim>\<open>try\<close> ends with an exception or without one.  Opening for writing empties the file,
  and \<^verbatim>\<open>json.dump\<close> writes piece by piece: when it raises, what is left is the beginning
  of a text, which does not parse.  The indentation is a matter of the text only.
\<close>

definition write_json ::
  "runtime \<Rightarrow> filesystem \<Rightarrow> path \<Rightarrow> pyval \<Rightarrow> py_error option \<times> filesystem" where
  "write_json R fs p data =
     (if \<not> writable fs p then (Some OSError, fs)
      else case dump_raises R data of
             Some e \<Rightarrow> (Some e, fs\<lparr>files := (files fs)(p := Present (Inl JSONDecodeError))\<rparr>)
           | None \<Rightarrow> (None, fs\<lparr>files := (files fs)(p := Present (Inr (json_encode data)))\<rparr>))"

definition save_json :: "runtime \<Rightarrow> filesystem \<Rightarrow> path \<Rightarrow> pyval \<Rightarrow> bool \<times> filesystem" where
  "save_json R fs p data =
     (case write_json R fs p data of
        (None, fs') \<Rightarrow> (True, fs')
      | (Some e, fs') \<Rightarrow> (False, fs'))"

section \<open>data\_loader: validation of required fields\<close>

text \<open>
  \<^verbatim>\<open>
  def validate_required_fields(data, required_fields, entity_name="entity"):
      missing_fields = [field for field in required_fields if field not in data]
      if missing_fields:
          return False
      return True
  \<close>
\<close>

fun missing_fields :: "pyval \<Rightarrow> string list \<Rightarrow> py_error + string list" where
  "missing_fields data [] = Inr []"
| "missing_fields data (f # fs) =
     andthen (py_in f data) (\<lambda>present.
     andthen (missing_fields data fs) (\<lambda>rest.
     Inr (if \<not> present then f # rest else rest)))"

definition validate_required_fields :: "pyval \<Rightarrow> string list \<Rightarrow> string \<Rightarrow> py_error + bool" where
  "validate_required_fields data required_fields entity_name =
     andthen (missing_fields data required_fields) (\<lambda>missing.
     if missing \<noteq> [] then Inr False else Inr True)"

section \<open>monsters\_service\<close>

text \<open>
  Modelled from the spec: the Monster value record of \<^verbatim>\<open>src/models.py\<close>, which is not
  among the sources (attributes id, name, hp, exp, loot, location and the optional
  difficulty).  Its constructor stores the arguments and does not raise.  The fields
  carry the prefix \<open>m_\<close>.
\<close>

record monster =
  m_id :: string
  m_name :: string
  m_hp :: int
  m_exp :: int
  m_loot :: string
  m_location :: string
  m_difficulty :: pyval

definition MONSTERS_FILE :: path where
  "MONSTERS_FILE = ''content/monsters.json''"

definition monster_fields :: "string list" where
  "monster_fields = [''id'', ''name'', ''hp'', ''exp'', ''loot'', ''location'']"

text \<open>
  The body of the \<^verbatim>\<open>try\<close> block: the arguments of the constructor are evaluated from
  left to right and the first exception ends the evaluation.
  \<^verbatim>\<open>
  monster = Monster(
      id=str(item["id"]), name=str(item["name"]),
      hp=safe_int(item["hp"]), exp=safe_int(item["exp"]),
      loot=str(item["loot"]), location=str(item["location"]),
      difficulty=item.get("difficulty"))
  \<close>
\<close>

definition build_monster :: "runtime \<Rightarrow> pyval \<Rightarrow> py_error + monster" where
  "build_monster R item =
     andthen (py_getitem item ''id'') (\<lambda>v_id.
     andthen (py_getitem item ''name'') (\<lambda>v_name.
     andthen (py_getitem item ''hp'') (\<lambda>v_hp.
     andthen (safe_int R v_hp 0) (\<lambda>hp.
     andthen (py_getitem item ''exp'') (\<lambda>v_exp.
     andthen (safe_int R v_exp 0) (\<lambda>exp.
     andthen (py_getitem item ''loot'') (\<lambda>v_loot.
     andthen (py_getitem item ''location'') (\<lambda>v_location.
     andthen (py_get item ''difficulty'' PNone) (\<lambda>difficulty.
     Inr \<lparr>m_id = py_str R v_id, m_name = py_str R v_name, m_hp = hp, m_exp = exp,
          m_loot = py_str R v_loot, m_location = py_str R v_location,
          m_difficulty = difficulty\<rparr>)))))))))"

text \<open>
  \<^verbatim>\<open>
  monsters = []
  for item in data:
      if not validate_required_fields(item, [...], "Monster"):
          continue
      try:
          monster = Monster(...)
          monsters.append(monster)
      except Exception as e:
          logger.error(f"Error parsing monster {item.get('id', 'unknown')}: {e}")
  return monsters
  \<close>
  The validation stands outside the \<^verbatim>\<open>try\<close>, and the handler itself calls
  \<^verbatim>\<open>item.get\<close>: an exception of either leaves the loop.
\<close>

fun load_monsters_loop ::
  "runtime \<Rightarrow> pyval list \<Rightarrow> monster list \<Rightarrow> py_error + monster list" where
  "load_monsters_loop R [] monsters = Inr monsters"
| "load_monsters_loop R (item # rest) monsters =
     andthen (validate_required_fields item monster_fields ''Monster'') (\<lambda>valid.
     if \<not> valid then load_monsters_loop R rest monsters
     else case build_monster R item of
            Inr m \<Rightarrow> load_monsters_loop R rest (monsters @ [m])
          | Inl e \<Rightarrow>
              andthen (py_get item ''id'' (PStr ''unknown'')) (\<lambda>logged.
              load_monsters_loop R rest monsters))"

text \<open>
  \<^verbatim>\<open>
  def load_monsters():
      data = load_json(MONSTERS_FILE)
      if not data or not isinstance(data, list):
          return []
      ...
  \<close>
\<close>

definition load_monsters :: "runtime \<Rightarrow> filesystem \<Rightarrow> py_error + monster list" where
  "load_monsters R fs =
     andthen (load_json fs MONSTERS_FILE) (\<lambda>data.
     if \<not> truthy data \<or> \<not> is_list data then Inr []
     else case data of PList items \<Rightarrow> load_monsters_loop R items [] | _ \<Rightarrow> Inr [])"

text \<open>
  \<^verbatim>\<open>
  def get_monster_by_id(monster_id):
      monsters = load_monsters()
      for monster in monsters:
          if monster.id == monster_id:
              return monster
      return None
  \<close>
\<close>

fun first_with_id :: "monster list \<Rightarrow> string \<Rightarrow> monster option" where
  "first_with_id [] monster_id = None"
| "first_with_id (m # ms) monster_id =
     (if m_id m = monster_id then Some m else first_with_id ms monster_id)"

definition get_monster_by_id ::
  "runtime \<Rightarrow> filesystem \<Rightarrow> string \<Rightarrow> py_error + monster option" where
  "get_monster_by_id R fs monster_id =
     andthen (load_monsters R fs) (\<lambda>monsters. Inr (first_with_id monsters monster_id))"

text \<open>
  \<^verbatim>\<open>
  def search_monsters(query):
      if not query:
          return load_monsters()
      monsters = load_monsters()
      query_lower = query.lower()
      results = [monster for monster in monsters
                 if (query_lower in monster.name.lower() or
                     query_lower in monster.location.lower() or
                     query_lower in monster.loot.lower())]
      return results
  \<close>
\<close>

definition search_monsters ::
  "runtime \<Rightarrow> filesystem \<Rightarrow> string \<Rightarrow> py_error + monster list" where
  "search_monsters R fs query =
     (if query = [] then load_monsters R fs
      else andthen (load_monsters R fs) (\<lambda>monsters.
           let query_lower = py_lower R query in
           Inr (filter (\<lambda>m. str_contains query_lower (py_lower R (m_name m)) \<or>
                             str_contains query_lower (py_lower R (m_location m)) \<or>
                             str_contains query_lower (py_lower R (m_loot m))) monsters)))"

section \<open>server\_info\_service\<close>

text \<open>
  Modelled from the spec: the ServerInfo value record of \<^verbatim>\<open>src/models.py\<close>, which is
  not among the sources (attributes id, name, description, rates, version and the
  optional website, discord, additional\_info).  Its constructor stores the arguments
  and does not raise.  The fields carry the prefix \<open>si_\<close>.
\<close>

record server_info =
  si_id :: string
  si_name :: string
  si_description :: string
  si_rates :: pyval
  si_version :: string
  si_website :: pyval
  si_discord :: pyval
  si_additional_info :: pyval

definition SERVER_INFO_FILE :: path where
  "SERVER_INFO_FILE = ''content/server_info.json''"

text \<open>
  \<^verbatim>\<open>
  server_info = ServerInfo(
      id=str(data.get("id", "server_001")),
      name=str(data.get("name", "Fibula Project")),
      description=str(data.get("description", "")),
      rates=data.get("rates", {}),
      version=str(data.get("version", "7.1")),
      website=data.get("website"),
      discord=data.get("discord"),
      additional_info=data.get("additional_info"))
  \<close>
\<close>

definition build_server_info :: "runtime \<Rightarrow> pyval \<Rightarrow> py_error + server_info" where
  "build_server_info R data =
     andthen (py_get data ''id'' (PStr ''server_001'')) (\<lambda>v_id.
     andthen (py_get data ''name'' (PStr ''Fibula Project'')) (\<lambda>v_name.
     andthen (py_get data ''description'' (PStr [])) (\<lambda>v_description.
     andthen (py_get data ''rates'' (PDict [])) (\<lambda>rates.
     andthen (py_get data ''version'' (PStr ''7.1'')) (\<lambda>v_version.
     andthen (py_get data ''website'' PNone) (\<lambda>website.
     andthen (py_get data ''discord'' PNone) (\<lambda>discord.
     andthen (py_get data ''additional_info'' PNone) (\<lambda>additional_info.
     Inr \<lparr>si_id = py_str R v_id, si_name = py_str R v_name,
          si_description = py_str R v_description, si_rates = rates,
          si_version = py_str R v_version, si_website = website, si_discord = discord,
          si_additional_info = additional_info\<rparr>))))))))"

text \<open>
  \<^verbatim>\<open>
  def load_server_info():
      data = load_json(SERVER_INFO_FILE)
      if not data or not isinstance(data, dict):
          return None
      try:
          server_info = ServerInfo(...)
          return server_info
      except Exception as e:
          return None
  \<close>
\<close>

definition load_server_info ::
  "runtime \<Rightarrow> filesystem \<Rightarrow> py_error + server_info option" where
  "load_server_info R fs =
     andthen (load_json fs SERVER_INFO_FILE) (\<lambda>data.
     if \<not> truthy data \<or> \<not> is_dict data then Inr None
     else case build_server_info R data of
            Inr server_info \<Rightarrow> Inr (Some server_info)
          | Inl e \<Rightarrow> Inr None)"

section \<open>Notions of the specification\<close>

text \<open>A text occurs in another one as a substring.\<close>

definition occurs_in :: "string \<Rightarrow> string \<Rightarrow> bool" where
  "occurs_in q s = (\<exists>pre suf. s = pre @ q @ suf)"

text \<open>
  The specification's notion of a case-insensitive substring match: some stretch of the
  text equals the query up to the case of the letters A to Z.
\<close>

definition matches_ci :: "string \<Rightarrow> string \<Rightarrow> bool" where
  "matches_ci q s = (\<exists>pre t suf. s = pre @ t @ suf \<and> ascii_lower t = ascii_lower q)"

text \<open>A monster whose three searched texts are ASCII.\<close>

definition ascii_texts :: "monster \<Rightarrow> bool" where
  "ascii_texts m = (is_ascii (m_name m) \<and> is_ascii (m_location m) \<and> is_ascii (m_loot m))"

text \<open>A raw record that contains the six required keys.\<close>

definition contains_all_keys :: "(pykey \<times> pyval) list \<Rightarrow> bool" where
  "contains_all_keys kvs = (\<forall>f \<in> set monster_fields. dict_get kvs f \<noteq> None)"

text \<open>
  A raw record whose hp or exp is an infinite float: \<^verbatim>\<open>Infinity\<close>, or an overflowing
  literal such as \<^verbatim>\<open>1e999\<close>, in the file.
\<close>

definition infinite_stat :: "(pykey \<times> pyval) list \<Rightarrow> bool" where
  "infinite_stat kvs =
     (dict_get kvs ''hp'' = Some (PFloat PosInf) \<or> dict_get kvs ''hp'' = Some (PFloat NegInf) \<or>
      dict_get kvs ''exp'' = Some (PFloat PosInf) \<or> dict_get kvs ''exp'' = Some (PFloat NegInf))"

text \<open>The id a raw record carries, as the loader reads it.\<close>

definition record_id :: "runtime \<Rightarrow> (pykey \<times> pyval) list \<Rightarrow> string" where
  "record_id R kvs = (case dict_get kvs ''id'' of Some v \<Rightarrow> py_str R v | None \<Rightarrow> [])"

text \<open>The entity constructed from a raw record.\<close>

definition built_from :: "runtime \<Rightarrow> (pykey \<times> pyval) list \<Rightarrow> monster \<Rightarrow> bool" where
  "built_from R kvs m = (build_monster R (PDict kvs) = Inr m)"








section \<open>Sample data\<close>

text \<open>
  A runtime for the sample data, which is ASCII and which \<^verbatim>\<open>json.dump\<close> accepts: its
  functions for other text are never consulted there.
\<close>

definition plain :: runtime where
  "plain = \<lparr>repr_of = (\<lambda>v. []), unicode_lower = (\<lambda>s. s), unicode_int = (\<lambda>s. None),
     dump_raises = (\<lambda>v. None)\<rparr>"

text \<open>
  The capital sigma, a name that ends with it (capital alpha, capital sigma), and a
  runtime that lowers the two as the library does: a capital sigma alone becomes the
  small sigma, at the end of a word after a letter the final sigma.
\<close>

definition sigma :: string where
  "sigma = [CHR 0xCE, CHR 0xA3]"

definition alpha_sigma :: string where
  "alpha_sigma = [CHR 0xCE, CHR 0x91, CHR 0xCE, CHR 0xA3]"

definition greek :: runtime where
  "greek = plain\<lparr>unicode_lower := (\<lambda>s.
     if s = alpha_sigma then [CHR 0xCE, CHR 0xB1, CHR 0xCF, CHR 0x82]
     else if s = sigma then [CHR 0xCF, CHR 0x83]
     else s)\<rparr>"

text \<open>A file system holding one node, every path writable.\<close>

definition fs_with :: "path \<Rightarrow> node \<Rightarrow> filesystem" where
  "fs_with p n = \<lparr>files = (\<lambda>q. if q = p then n else Absent), writable = (\<lambda>q. True)\<rparr>"


text \<open>A path whose name is longer than a file system allows, and cannot be examined.\<close>

definition long_path :: path where
  "long_path = replicate 300 (CHR ''a'') @ ''.json''"

definition fs_long :: filesystem where
  "fs_long = fs_with long_path Unreachable"

text \<open>A complete record, as a member of a document, as a raw record and as the monster it describes; a monsters file holding it.\<close>

definition rat_record :: jdoc where
  "rat_record = DObj [(''id'', DStr ''rat''), (''name'', DStr ''Rat''), (''hp'', DInt 20),
     (''exp'', DInt 5), (''loot'', DStr ''Cheese''), (''location'', DStr ''Sewers'')]"

definition rat_kvs :: "(pykey \<times> pyval) list" where
  "rat_kvs = [(KStr ''id'', PStr ''rat''), (KStr ''name'', PStr ''Rat''), (KStr ''hp'', PInt 20),
     (KStr ''exp'', PInt 5), (KStr ''loot'', PStr ''Cheese''), (KStr ''location'', PStr ''Sewers'')]"

definition rat_monster :: monster where
  "rat_monster = \<lparr>m_id = ''rat'', m_name = ''Rat'', m_hp = 20, m_exp = 5,
     m_loot = ''Cheese'', m_location = ''Sewers'', m_difficulty = PNone\<rparr>"

definition fs_rat :: filesystem where
  "fs_rat = fs_with MONSTERS_FILE (Present (Inr (DArr [rat_record])))"

text \<open>A record with two of the six keys, and a file holding the complete record and this one.\<close>

definition ghost_kvs :: "(pykey \<times> pyval) list" where
  "ghost_kvs = [(KStr ''id'', PStr ''ghost''), (KStr ''name'', PStr ''Ghost'')]"

definition fs_two :: filesystem where
  "fs_two = fs_with MONSTERS_FILE (Present (Inr (DArr [rat_record,
     DObj [(''id'', DStr ''ghost''), (''name'', DStr ''Ghost'')]])))"

text \<open>A complete record whose hp is an infinite float, and a file holding it.\<close>

definition inf_record :: jdoc where
  "inf_record = DObj [(''id'', DStr ''rat''), (''name'', DStr ''Rat''), (''hp'', DFloat PosInf),
     (''exp'', DInt 5), (''loot'', DStr ''Cheese''), (''location'', DStr ''Sewers'')]"

definition inf_kvs :: "(pykey \<times> pyval) list" where
  "inf_kvs = [(KStr ''id'', PStr ''rat''), (KStr ''name'', PStr ''Rat''),
     (KStr ''hp'', PFloat PosInf), (KStr ''exp'', PInt 5), (KStr ''loot'', PStr ''Cheese''),
     (KStr ''location'', PStr ''Sewers'')]"

definition fs_inf :: filesystem where
  "fs_inf = fs_with MONSTERS_FILE (Present (Inr (DArr [inf_record])))"

text \<open>A record with every required key bound to null, and a file holding it.\<close>

definition null_kvs :: "(pykey \<times> pyval) list" where
  "null_kvs = [(KStr ''id'', PNone), (KStr ''name'', PNone), (KStr ''hp'', PNone),
     (KStr ''exp'', PNone), (KStr ''loot'', PNone), (KStr ''location'', PNone)]"

definition null_monster :: monster where
  "null_monster = \<lparr>m_id = ''None'', m_name = ''None'', m_hp = 0, m_exp = 0,
     m_loot = ''None'', m_location = ''None'', m_difficulty = PNone\<rparr>"

definition fs_null :: filesystem where
  "fs_null = fs_with MONSTERS_FILE (Present (Inr (DArr [
     DObj [(''id'', DNull), (''name'', DNull), (''hp'', DNull), (''exp'', DNull),
       (''loot'', DNull), (''location'', DNull)]])))"

text \<open>A complete record whose name is null and whose hp is an infinite float, and a file holding it.\<close>

definition null_inf_kvs :: "(pykey \<times> pyval) list" where
  "null_inf_kvs = [(KStr ''id'', PStr ''rat''), (KStr ''name'', PNone),
     (KStr ''hp'', PFloat PosInf), (KStr ''exp'', PInt 5), (KStr ''loot'', PStr ''Cheese''),
     (KStr ''location'', PStr ''Sewers'')]"

definition fs_null_inf :: filesystem where
  "fs_null_inf = fs_with MONSTERS_FILE (Present (Inr (DArr [
     DObj [(''id'', DStr ''rat''), (''name'', DNull), (''hp'', DFloat PosInf),
       (''exp'', DInt 5), (''loot'', DStr ''Cheese''), (''location'', DStr ''Sewers'')]])))"

text \<open>
  A second complete record with the id rat; a file holding the first and this one, and a
  file holding the record with the infinite hp and this one.
\<close>

definition twin_record :: jdoc where
  "twin_record = DObj [(''id'', DStr ''rat''), (''name'', DStr ''Cave Rat''), (''hp'', DInt 30),
     (''exp'', DInt 10), (''loot'', DStr ''Gold''), (''location'', DStr ''Cave'')]"

definition twin_kvs :: "(pykey \<times> pyval) list" where
  "twin_kvs = [(KStr ''id'', PStr ''rat''), (KStr ''name'', PStr ''Cave Rat''),
     (KStr ''hp'', PInt 30), (KStr ''exp'', PInt 10), (KStr ''loot'', PStr ''Gold''),
     (KStr ''location'', PStr ''Cave'')]"

definition twin_monster :: monster where
  "twin_monster = \<lparr>m_id = ''rat'', m_name = ''Cave Rat'', m_hp = 30, m_exp = 10,
     m_loot = ''Gold'', m_location = ''Cave'', m_difficulty = PNone\<rparr>"

definition fs_twins :: filesystem where
  "fs_twins = fs_with MONSTERS_FILE (Present (Inr (DArr [rat_record, twin_record])))"

definition fs_inf_twin :: filesystem where
  "fs_inf_twin = fs_with MONSTERS_FILE (Present (Inr (DArr [inf_record, twin_record])))"

text \<open>A monster named with the two Greek capitals, and a file holding its record.\<close>

definition sigma_monster :: monster where
  "sigma_monster = \<lparr>m_id = ''as'', m_name = alpha_sigma, m_hp = 1, m_exp = 1,
     m_loot = ''Gold'', m_location = ''Delphi'', m_difficulty = PNone\<rparr>"

definition fs_sigma :: filesystem where
  "fs_sigma = fs_with MONSTERS_FILE (Present (Inr (DArr [
     DObj [(''id'', DStr ''as''), (''name'', DStr alpha_sigma), (''hp'', DInt 1),
       (''exp'', DInt 1), (''loot'', DStr ''Gold''), (''location'', DStr ''Delphi'')]])))"

text \<open>Server-info files: one with a name only, one with an empty object.\<close>

definition fs_server :: filesystem where
  "fs_server = fs_with SERVER_INFO_FILE (Present (Inr (DObj [(''name'', DStr ''Fibula'')])))"

definition fs_server_empty :: filesystem where
  "fs_server_empty = fs_with SERVER_INFO_FILE (Present (Inr (DObj [])))"




section \<open>Properties\<close>

subsection \<open>Evaluation of the sample data\<close>

lemma files_fs_with [simp]: "files (fs_with p n) p = n"
  by (simp add: fs_with_def)

lemma load_json_fs_with_doc [simp]:
  "load_json (fs_with p (Present (Inr d))) p = Inr (json_decode d)"
  by (simp add: load_json_def path_exists_def read_json_def andthen_def)

lemmas eval_defs =
  andthen_def validate_required_fields_def monster_fields_def build_monster_def dict_get_def
  dict_of_members_def safe_int_def load_monsters_def

lemmas fixture_defs =
  rat_kvs_def ghost_kvs_def inf_kvs_def twin_kvs_def null_kvs_def null_inf_kvs_def
  rat_record_def inf_record_def twin_record_def rat_monster_def twin_monster_def
  null_monster_def

lemma load_monsters_fs_rat: "load_monsters R fs_rat = Inr [rat_monster]"
  by (simp add: fs_rat_def fixture_defs eval_defs)

lemma fs_two_doc: "load_json fs_two MONSTERS_FILE = Inr (PList (map PDict [rat_kvs, ghost_kvs]))"
  by (simp add: fs_two_def fixture_defs dict_of_members_def)

lemma fs_inf_doc: "load_json fs_inf MONSTERS_FILE = Inr (PList (map PDict [inf_kvs]))"
  by (simp add: fs_inf_def fixture_defs dict_of_members_def)

lemma fs_inf_twin_doc:
  "load_json fs_inf_twin MONSTERS_FILE = Inr (PList (map PDict [inf_kvs, twin_kvs]))"
  by (simp add: fs_inf_twin_def fixture_defs dict_of_members_def)

lemma fs_null_doc: "load_json fs_null MONSTERS_FILE = Inr (PList [PDict null_kvs])"
  by (simp add: fs_null_def fixture_defs dict_of_members_def)

lemma fs_null_inf_doc: "load_json fs_null_inf MONSTERS_FILE = Inr (PList [PDict null_inf_kvs])"
  by (simp add: fs_null_inf_def fixture_defs dict_of_members_def)

lemma keys_samples:
  "contains_all_keys rat_kvs" "\<not> contains_all_keys ghost_kvs" "contains_all_keys inf_kvs"
  "contains_all_keys twin_kvs" "contains_all_keys null_kvs" "contains_all_keys null_inf_kvs"
  by (simp_all add: contains_all_keys_def monster_fields_def dict_get_def fixture_defs)

lemma stats_samples:
  "\<not> infinite_stat rat_kvs" "infinite_stat inf_kvs" "\<not> infinite_stat twin_kvs"
  "\<not> infinite_stat null_kvs" "infinite_stat null_inf_kvs"
  by (simp_all add: infinite_stat_def dict_get_def fixture_defs)

subsection \<open>Safe coercions\<close>

lemma safe_int_examples:
  "safe_int R (PStr ''42'') 0 = Inr 42"
  "safe_int R (PStr ''42.7'') 0 = Inr 0"
  "safe_int R PNone 10 = Inr 10"
  by (simp_all add: safe_int_def int_of_str_def is_ascii_def max_str_digits_def strip_def
      is_space_def digit_val_def)

lemma safe_int_convertible: "py_int R v = Inr n \<Longrightarrow> safe_int R v d = Inr n"
  by (simp add: safe_int_def)

lemma safe_int_default:
  "py_int R v = Inl e \<Longrightarrow> e = ValueError \<or> e = TypeError \<Longrightarrow> safe_int R v d = Inr d"
  by (auto simp: safe_int_def)

lemma safe_int_raises_iff:
  "safe_int R v d = Inl e \<longleftrightarrow> (v = PFloat PosInf \<or> v = PFloat NegInf) \<and> e = OverflowError"
proof (cases v)
  case (PFloat f)
  then show ?thesis by (cases f) (auto simp: safe_int_def)
qed (auto simp: safe_int_def split: option.splits)

lemma safe_int_finite:
  "v \<noteq> PFloat PosInf \<Longrightarrow> v \<noteq> PFloat NegInf \<Longrightarrow> \<exists>n. safe_int R v d = Inr n"
  using safe_int_raises_iff [of R v d] by (cases "safe_int R v d") auto

text \<open>
  Claim C4: \<^verbatim>\<open>safe_int\<close> is meant never to raise, but \<^verbatim>\<open>int\<close> of an infinite float raises
  OverflowError, which the handler for ValueError and TypeError does not catch: on such a
  value (an hp of \<^verbatim>\<open>1e999\<close> in the file) the exception leaves \<^verbatim>\<open>safe_int\<close>.
\<close>

theorem safe_int_infinity_raises: "safe_int R (PFloat PosInf) 0 = Inl OverflowError"
  by (simp add: safe_int_def)

text \<open>
  Claim C5: \<^verbatim>\<open>safe_list\<close> returns a list unchanged, returns the supplied default (or the
  empty list) for None, and wraps every other value in a one-element list.
\<close>

theorem safe_list_cases:
  "safe_list (PList xs) d = xs \<and>
   safe_list PNone d = (case d of None \<Rightarrow> [] | Some l \<Rightarrow> l) \<and>
   (v \<noteq> PNone \<and> \<not> is_list v \<longrightarrow> safe_list v d = [v])"
  by (cases v) (simp_all add: safe_list_def)

text \<open>
  Claim C5: the three cases of \<^verbatim>\<open>safe_list\<close> on concrete values.
\<close>

theorem safe_list_cases_witness:
  "safe_list (PList [PInt 1, PInt 2]) None = [PInt 1, PInt 2] \<and>
   safe_list PNone None = [] \<and>
   safe_list PNone (Some [PStr ''default'']) = [PStr ''default''] \<and>
   PStr ''x'' \<noteq> PNone \<and> \<not> is_list (PStr ''x'') \<and>
   safe_list (PStr ''x'') None = [PStr ''x'']"
  using safe_list_cases [of "[PInt 1, PInt 2]" None "PStr ''x''"]
    safe_list_cases [of "[]" "Some [PStr ''default'']" "PStr ''x''"]
  by simp

subsection \<open>Loading and saving JSON\<close>

text \<open>
  Claim C6: \<^verbatim>\<open>load_json\<close> is meant never to raise, and it returns the parsed document
  when the file exists and parses, and None when the path does not exist, when the text is
  malformed and on any other failure of opening, reading or parsing.  But the test of
  existence stands before the \<^verbatim>\<open>try\<close>: when the path cannot be examined its OSError
  leaves \<^verbatim>\<open>load_json\<close>, and this is the only way in which the function raises.
\<close>

theorem load_json_raises_when_unreachable:
  "(files fs p = Unreachable \<longrightarrow> load_json fs p = Inl OSError) \<and>
   (files fs p = Absent \<longrightarrow> load_json fs p = Inr PNone) \<and>
   (files fs p = Present (Inr d) \<longrightarrow> load_json fs p = Inr (json_decode d)) \<and>
   (files fs p = Present (Inl e) \<longrightarrow> load_json fs p = Inr PNone) \<and>
   ((\<exists>e'. load_json fs p = Inl e') \<longleftrightarrow> files fs p = Unreachable)"
  by (auto simp: load_json_def path_exists_def read_json_def andthen_def
      split: node.splits sum.splits)

text \<open>
  Claim C6: a path with a name of 300 letters cannot be examined, and \<^verbatim>\<open>load_json\<close>
  raises on it; the other outcomes on concrete file systems.
\<close>

theorem load_json_raises_when_unreachable_witness:
  "files fs_long long_path = Unreachable \<and>
   load_json fs_long long_path = Inl OSError \<and>
   load_json (fs_with MONSTERS_FILE Absent) MONSTERS_FILE = Inr PNone \<and>
   load_json (fs_with MONSTERS_FILE (Present (Inr (DArr [rat_record])))) MONSTERS_FILE =
     Inr (json_decode (DArr [rat_record])) \<and>
   load_json (fs_with MONSTERS_FILE (Present (Inl JSONDecodeError))) MONSTERS_FILE = Inr PNone \<and>
   load_json (fs_with MONSTERS_FILE (Present (Inl OSError))) MONSTERS_FILE = Inr PNone"
  using load_json_raises_when_unreachable [of fs_long long_path DNull OSError]
    load_json_raises_when_unreachable [of "fs_with MONSTERS_FILE Absent" MONSTERS_FILE DNull OSError]
    load_json_raises_when_unreachable
      [of "fs_with MONSTERS_FILE (Present (Inr (DArr [rat_record])))" MONSTERS_FILE
        "DArr [rat_record]" OSError]
    load_json_raises_when_unreachable
      [of "fs_with MONSTERS_FILE (Present (Inl JSONDecodeError))" MONSTERS_FILE DNull
        JSONDecodeError]
    load_json_raises_when_unreachable
      [of "fs_with MONSTERS_FILE (Present (Inl OSError))" MONSTERS_FILE DNull OSError]
  by (simp add: fs_long_def)








lemma save_json_failed:
  "\<not> writable fs p \<Longrightarrow> save_json R fs p data = (False, fs)"
  "writable fs p \<Longrightarrow> dump_raises R data = Some e \<Longrightarrow>
   save_json R fs p data = (False, fs\<lparr>files := (files fs)(p := Present (Inl JSONDecodeError))\<rparr>)"
  by (simp_all add: save_json_def write_json_def)





subsection \<open>Loading monsters\<close>

lemma missing_fields_dict:
  "missing_fields (PDict kvs) fs = Inr (filter (\<lambda>f. dict_get kvs f = None) fs)"
  by (induction fs) (simp_all add: andthen_def)

lemma validate_dict:
  "validate_required_fields (PDict kvs) monster_fields n = Inr (contains_all_keys kvs)"
  by (simp add: validate_required_fields_def missing_fields_dict andthen_def
      contains_all_keys_def filter_empty_conv)

lemma build_monster_finite:
  assumes "contains_all_keys kvs" and "\<not> infinite_stat kvs"
  shows "\<exists>m. build_monster R (PDict kvs) = Inr m"
proof -
  from assms(1) obtain v1 v2 v3 v4 v5 v6 where g:
    "dict_get kvs ''id'' = Some v1" "dict_get kvs ''name'' = Some v2"
    "dict_get kvs ''hp'' = Some v3" "dict_get kvs ''exp'' = Some v4"
    "dict_get kvs ''loot'' = Some v5" "dict_get kvs ''location'' = Some v6"
    by (auto simp: contains_all_keys_def monster_fields_def)
  with assms(2) have "v3 \<noteq> PFloat PosInf" "v3 \<noteq> PFloat NegInf"
    "v4 \<noteq> PFloat PosInf" "v4 \<noteq> PFloat NegInf"
    by (auto simp: infinite_stat_def)
  then obtain n3 n4 where "safe_int R v3 0 = Inr n3" "safe_int R v4 0 = Inr n4"
    using safe_int_finite by blast
  with g show ?thesis
    by (simp add: build_monster_def andthen_def split: option.splits)
qed

lemma build_monster_infinite:
  assumes "contains_all_keys kvs" and "infinite_stat kvs"
  shows "build_monster R (PDict kvs) = Inl OverflowError"
proof -
  from assms(1) obtain v1 v2 v3 v4 v5 v6 where g:
    "dict_get kvs ''id'' = Some v1" "dict_get kvs ''name'' = Some v2"
    "dict_get kvs ''hp'' = Some v3" "dict_get kvs ''exp'' = Some v4"
    "dict_get kvs ''loot'' = Some v5" "dict_get kvs ''location'' = Some v6"
    by (auto simp: contains_all_keys_def monster_fields_def)
  show ?thesis
  proof (cases "safe_int R v3 0")
    case (Inl e)
    then have "e = OverflowError" by (simp add: safe_int_raises_iff)
    with Inl g show ?thesis by (simp add: build_monster_def andthen_def)
  next
    case (Inr n3)
    then have "v3 \<noteq> PFloat PosInf" "v3 \<noteq> PFloat NegInf"
      by (auto simp: safe_int_def)
    with assms(2) g have "v4 = PFloat PosInf \<or> v4 = PFloat NegInf"
      by (auto simp: infinite_stat_def)
    then have "safe_int R v4 0 = Inl OverflowError"
      by (simp add: safe_int_raises_iff)
    with Inr g show ?thesis by (simp add: build_monster_def andthen_def)
  qed
qed

lemma load_monsters_loop_dicts:
  "\<exists>ms. load_monsters_loop R (map PDict recs) acc = Inr (acc @ ms) \<and>
        list_all2 (built_from R)
          (filter (\<lambda>kvs. contains_all_keys kvs \<and> \<not> infinite_stat kvs) recs) ms"
proof (induction recs arbitrary: acc)
  case Nil
  then show ?case by simp
next
  case (Cons kvs recs)
  show ?case
  proof (cases "contains_all_keys kvs")
    case False
    with Cons [of acc] show ?thesis
      by (simp add: validate_dict andthen_def)
  next
    case True
    show ?thesis
    proof (cases "infinite_stat kvs")
      case True
      have "build_monster R (PDict kvs) = Inl OverflowError"
        by (rule build_monster_infinite [OF \<open>contains_all_keys kvs\<close> True])
      with True \<open>contains_all_keys kvs\<close> Cons [of acc] show ?thesis
        by (simp add: validate_dict andthen_def split: option.splits)
    next
      case False
      with True obtain m where m: "build_monster R (PDict kvs) = Inr m"
        using build_monster_finite by blast
      from Cons [of "acc @ [m]"] obtain ms where
        "load_monsters_loop R (map PDict recs) (acc @ [m]) = Inr (acc @ m # ms)"
        "list_all2 (built_from R)
           (filter (\<lambda>kvs. contains_all_keys kvs \<and> \<not> infinite_stat kvs) recs) ms"
        by auto
      moreover from m have "built_from R kvs m"
        by (simp add: built_from_def)
      ultimately show ?thesis
        using True False m by (auto simp: validate_dict andthen_def)
    qed
  qed
qed

lemma load_monsters_dicts:
  assumes "load_json fs MONSTERS_FILE = Inr (PList (map PDict recs))"
  shows "\<exists>ms. load_monsters R fs = Inr ms \<and>
     list_all2 (built_from R)
       (filter (\<lambda>kvs. contains_all_keys kvs \<and> \<not> infinite_stat kvs) recs) ms"
proof (cases recs)
  case Nil
  with assms show ?thesis by (simp add: load_monsters_def andthen_def)
next
  case (Cons r rs)
  with assms load_monsters_loop_dicts [of R recs "[]"] show ?thesis
    by (auto simp: load_monsters_def andthen_def)
qed

lemma length_filter_split:
  "length (filter (\<lambda>x. P x \<and> \<not> Q x) xs) + length (filter (\<lambda>x. P x \<and> Q x) xs) =
   length xs - length (filter (\<lambda>x. \<not> P x) xs)"
  by (induction xs) (auto simp: Suc_diff_le)

text \<open>
  Claim C1: \<^verbatim>\<open>load_monsters\<close> is meant to return one entity per record that contains the
  six required keys.  It does so except for the records whose hp or exp is an infinite
  float: there \<^verbatim>\<open>safe_int\<close> raises instead of returning its default (the defect of claim
  C4), the construction fails and the record is skipped, so that the result is shorter than
  claimed by the number of such records.
\<close>

theorem load_monsters_drops_infinite_stats:
  assumes "load_json fs MONSTERS_FILE = Inr (PList (map PDict recs))"
  shows "\<exists>ms. load_monsters R fs = Inr ms \<and>
     list_all2 (built_from R)
       (filter (\<lambda>kvs. contains_all_keys kvs \<and> \<not> infinite_stat kvs) recs) ms \<and>
     length ms + length (filter (\<lambda>kvs. contains_all_keys kvs \<and> infinite_stat kvs) recs) =
       length recs - length (filter (\<lambda>kvs. \<not> contains_all_keys kvs) recs)"
proof -
  from load_monsters_dicts [OF assms, of R] obtain ms where
    ms: "load_monsters R fs = Inr ms"
      "list_all2 (built_from R)
         (filter (\<lambda>kvs. contains_all_keys kvs \<and> \<not> infinite_stat kvs) recs) ms"
    by auto
  from ms(2) have "length ms =
      length (filter (\<lambda>kvs. contains_all_keys kvs \<and> \<not> infinite_stat kvs) recs)"
    by (simp add: list_all2_lengthD)
  with ms length_filter_split [of contains_all_keys infinite_stat recs] show ?thesis
    by auto
qed

text \<open>
  Claim C1: a file with one record that contains the six keys and has an infinite hp: the
  loaded collection is empty, where the claim has one entity; and a file with a complete
  record and a record with two keys only, where the claim holds.
\<close>

theorem load_monsters_drops_infinite_stats_witness:
  "load_json fs_inf MONSTERS_FILE = Inr (PList (map PDict [inf_kvs])) \<and>
   contains_all_keys inf_kvs \<and> infinite_stat inf_kvs \<and>
   load_monsters plain fs_inf = Inr [] \<and>
   load_json fs_two MONSTERS_FILE = Inr (PList (map PDict [rat_kvs, ghost_kvs])) \<and>
   (\<exists>ms. load_monsters plain fs_two = Inr ms \<and> list_all2 (built_from plain) [rat_kvs] ms \<and>
      length ms = 1)"
  using load_monsters_drops_infinite_stats [OF fs_inf_doc, of plain]
    load_monsters_drops_infinite_stats [OF fs_two_doc, of plain] fs_inf_doc fs_two_doc
  by (simp add: keys_samples stats_samples)

lemma built_from_null:
  assumes "built_from R kvs m"
  shows "(dict_get kvs ''hp'' = Some PNone \<longrightarrow> m_hp m = 0) \<and>
         (dict_get kvs ''exp'' = Some PNone \<longrightarrow> m_exp m = 0) \<and>
         (dict_get kvs ''name'' = Some PNone \<longrightarrow> m_name m = ''None'') \<and>
         (dict_get kvs ''loot'' = Some PNone \<longrightarrow> m_loot m = ''None'') \<and>
         (dict_get kvs ''location'' = Some PNone \<longrightarrow> m_location m = ''None'')"
  using assms
  by (auto simp: built_from_def build_monster_def andthen_def safe_int_def
      split: option.splits sum.splits if_splits)

text \<open>
  Claim C9: validation tests the presence of the keys only, so a record whose six keys are
  present passes it also when they are bound to null.  Such a record is meant to be loaded,
  with a null hp or exp read as 0 and a null name, loot or location as the text None.  It
  is, unless its hp or exp is an infinite float: then the record is skipped like any other
  such record (the defect of claim C4).
\<close>

theorem validation_tests_presence_only:
  assumes "load_json fs MONSTERS_FILE = Inr (PList [PDict kvs])"
  shows "validate_required_fields (PDict kvs) monster_fields ''Monster'' =
       Inr (contains_all_keys kvs) \<and>
     (contains_all_keys kvs \<and> infinite_stat kvs \<longrightarrow> load_monsters R fs = Inr []) \<and>
     (contains_all_keys kvs \<and> \<not> infinite_stat kvs \<longrightarrow>
        (\<exists>m. load_monsters R fs = Inr [m] \<and> built_from R kvs m \<and>
           (dict_get kvs ''hp'' = Some PNone \<longrightarrow> m_hp m = 0) \<and>
           (dict_get kvs ''exp'' = Some PNone \<longrightarrow> m_exp m = 0) \<and>
           (dict_get kvs ''name'' = Some PNone \<longrightarrow> m_name m = ''None'') \<and>
           (dict_get kvs ''loot'' = Some PNone \<longrightarrow> m_loot m = ''None'') \<and>
           (dict_get kvs ''location'' = Some PNone \<longrightarrow> m_location m = ''None'')))"
proof -
  from assms have doc: "load_json fs MONSTERS_FILE = Inr (PList (map PDict [kvs]))"
    by simp
  from load_monsters_dicts [OF doc, of R] obtain ms where
    ms: "load_monsters R fs = Inr ms"
      "list_all2 (built_from R)
         (filter (\<lambda>kvs. contains_all_keys kvs \<and> \<not> infinite_stat kvs) [kvs]) ms"
    by auto
  have dropped: "load_monsters R fs = Inr []" if "contains_all_keys kvs" "infinite_stat kvs"
    using ms that by simp
  have kept: "\<exists>m. load_monsters R fs = Inr [m] \<and> built_from R kvs m"
    if "contains_all_keys kvs" "\<not> infinite_stat kvs"
    using ms that by (auto simp: list_all2_Cons1)
  show ?thesis
    using dropped kept built_from_null [of R kvs] by (simp add: validate_dict) blast
qed

text \<open>
  Claim C9: a record whose name is null and whose hp is an infinite float passes the
  validation and is not loaded; a record with every required key bound to null is loaded
  as the claim says.
\<close>

theorem validation_tests_presence_only_witness:
  "load_json fs_null_inf MONSTERS_FILE = Inr (PList [PDict null_inf_kvs]) \<and>
   dict_get null_inf_kvs ''name'' = Some PNone \<and>
   validate_required_fields (PDict null_inf_kvs) monster_fields ''Monster'' = Inr True \<and>
   load_monsters plain fs_null_inf = Inr [] \<and>
   load_json fs_null MONSTERS_FILE = Inr (PList [PDict null_kvs]) \<and>
   validate_required_fields (PDict null_kvs) monster_fields ''Monster'' = Inr True \<and>
   load_monsters plain fs_null = Inr [null_monster]"
proof -
  have l: "load_monsters plain fs_null = Inr [null_monster]"
    by (simp add: fs_null_def fixture_defs eval_defs)
  show ?thesis
    using validation_tests_presence_only [OF fs_null_inf_doc, of plain]
      validation_tests_presence_only [OF fs_null_doc, of plain] fs_null_inf_doc fs_null_doc l
    by (simp add: keys_samples stats_samples) (simp add: dict_get_def null_inf_kvs_def)
qed

subsection \<open>Lookup by id\<close>

lemma build_monster_id: "build_monster R (PDict kvs) = Inr m \<Longrightarrow> m_id m = record_id R kvs"
  by (auto simp: build_monster_def andthen_def record_id_def split: option.splits sum.splits)

lemma first_with_id_built:
  "list_all2 (built_from R) rs ms \<Longrightarrow>
   (case find (\<lambda>kvs. record_id R kvs = i) rs of
      None \<Rightarrow> first_with_id ms i = None
    | Some kvs \<Rightarrow> \<exists>m. built_from R kvs m \<and> first_with_id ms i = Some m)"
proof (induction rs ms rule: list_all2_induct)
  case Nil
  then show ?case by simp
next
  case (Cons kvs rs m ms)
  then have "m_id m = record_id R kvs"
    by (simp add: built_from_def build_monster_id)
  with Cons show ?case by (auto split: option.splits)
qed

lemma first_with_id_None: "first_with_id ms i = None \<longleftrightarrow> (\<forall>m \<in> set ms. m_id m \<noteq> i)"
  by (induction ms) auto

lemma find_filter: "find P (filter Q xs) = find (\<lambda>x. Q x \<and> P x) xs"
  by (induction xs) auto

text \<open>
  Claim C8: ids are never compared while loading, so records that share an id all survive
  when they are loaded at all, and \<^verbatim>\<open>get_monster_by_id\<close> returns the first loaded monster
  that carries the id, None exactly when none does.  This is meant to be the entity of the
  first record with the six keys and that id; it is the entity of the first such record
  whose hp and exp are not infinite floats, the others being skipped by the loader (the
  defect of claim C4).
\<close>

theorem get_monster_by_id_skips_infinite_stats:
  assumes "load_json fs MONSTERS_FILE = Inr (PList (map PDict recs))"
  shows "\<exists>ms. load_monsters R fs = Inr ms \<and>
     list_all2 (built_from R)
       (filter (\<lambda>kvs. contains_all_keys kvs \<and> \<not> infinite_stat kvs) recs) ms \<and>
     (case find (\<lambda>kvs. (contains_all_keys kvs \<and> \<not> infinite_stat kvs) \<and> record_id R kvs = i) recs of
        None \<Rightarrow> get_monster_by_id R fs i = Inr None
      | Some kvs \<Rightarrow> \<exists>m. built_from R kvs m \<and> get_monster_by_id R fs i = Inr (Some m)) \<and>
     (get_monster_by_id R fs i = Inr None \<longleftrightarrow> (\<forall>m \<in> set ms. m_id m \<noteq> i))"
proof -
  from load_monsters_dicts [OF assms, of R] obtain ms where
    ms: "load_monsters R fs = Inr ms"
      "list_all2 (built_from R)
         (filter (\<lambda>kvs. contains_all_keys kvs \<and> \<not> infinite_stat kvs) recs) ms"
    by auto
  have g: "get_monster_by_id R fs i = Inr (first_with_id ms i)"
    by (simp add: get_monster_by_id_def andthen_def ms(1))
  from first_with_id_built [OF ms(2), of i]
  have "case find (\<lambda>kvs. (contains_all_keys kvs \<and> \<not> infinite_stat kvs) \<and> record_id R kvs = i) recs of
        None \<Rightarrow> get_monster_by_id R fs i = Inr None
      | Some kvs \<Rightarrow> \<exists>m. built_from R kvs m \<and> get_monster_by_id R fs i = Inr (Some m)"
    by (simp add: find_filter g split: option.splits)
  with ms g show ?thesis
    by (auto simp: first_with_id_None)
qed

text \<open>
  Claim C8: in a file with two records of id rat, both with the six keys, the first with an
  infinite hp, only the second is loaded and the lookup returns it, not the first; in a
  file with two ordinary records of id rat both are loaded and the lookup returns the
  first; an unknown id gives None.
\<close>

theorem get_monster_by_id_skips_infinite_stats_witness:
  "load_json fs_inf_twin MONSTERS_FILE = Inr (PList (map PDict [inf_kvs, twin_kvs])) \<and>
   contains_all_keys inf_kvs \<and> record_id plain inf_kvs = ''rat'' \<and>
   contains_all_keys twin_kvs \<and> record_id plain twin_kvs = ''rat'' \<and>
   load_monsters plain fs_inf_twin = Inr [twin_monster] \<and>
   get_monster_by_id plain fs_inf_twin ''rat'' = Inr (Some twin_monster) \<and>
   load_monsters plain fs_twins = Inr [rat_monster, twin_monster] \<and>
   get_monster_by_id plain fs_twins ''rat'' = Inr (Some rat_monster) \<and>
   get_monster_by_id plain fs_twins ''bat'' = Inr None"
proof -
  have l1: "load_monsters plain fs_inf_twin = Inr [twin_monster]"
    by (simp add: fs_inf_twin_def fixture_defs eval_defs)
  have l2: "load_monsters plain fs_twins = Inr [rat_monster, twin_monster]"
    by (simp add: fs_twins_def fixture_defs eval_defs)
  have ids: "record_id plain inf_kvs = ''rat''" "record_id plain twin_kvs = ''rat''"
    by (simp_all add: record_id_def dict_get_def fixture_defs)
  show ?thesis
    using get_monster_by_id_skips_infinite_stats [OF fs_inf_twin_doc, of plain "''rat''"]
      fs_inf_twin_doc
    by (simp add: l1 l2 ids keys_samples get_monster_by_id_def andthen_def rat_monster_def
        twin_monster_def)
qed

subsection \<open>Searching monsters\<close>

lemma str_contains_sublist: "str_contains q s = sublist q s"
  by (induction s) (simp_all add: sublist_Cons_right)

lemma str_contains_occurs: "str_contains q s = occurs_in q s"
  by (simp add: str_contains_sublist sublist_def occurs_in_def)

lemma matches_ci_sublist: "matches_ci q s = sublist (ascii_lower q) (ascii_lower s)"
proof
  assume "matches_ci q s"
  then obtain pre t suf where "s = pre @ t @ suf" "ascii_lower t = ascii_lower q"
    by (auto simp: matches_ci_def)
  then have "ascii_lower s = ascii_lower pre @ ascii_lower q @ ascii_lower suf"
    by (simp add: ascii_lower_def)
  then show "sublist (ascii_lower q) (ascii_lower s)"
    unfolding sublist_def by blast
next
  assume "sublist (ascii_lower q) (ascii_lower s)"
  then obtain ps ss where "map lower_char s = ps @ map lower_char q @ ss"
    by (auto simp: sublist_def ascii_lower_def)
  then obtain pre rest where s1: "s = pre @ rest"
    and r: "map lower_char rest = map lower_char q @ ss"
    by (metis map_eq_append_conv)
  from r obtain t suf where "rest = t @ suf" "map lower_char t = map lower_char q"
    by (metis map_eq_append_conv)
  with s1 show "matches_ci q s"
    unfolding matches_ci_def ascii_lower_def by blast
qed

lemma matches_ci_code: "matches_ci q s = str_contains (ascii_lower q) (ascii_lower s)"
  by (simp add: matches_ci_sublist str_contains_sublist)

lemma py_lower_ascii: "is_ascii s \<Longrightarrow> py_lower R s = ascii_lower s"
  by (simp add: py_lower_def)

text \<open>
  Claim C2: as amended: for a non-empty query, \<^verbatim>\<open>search_monsters\<close> returns exactly the
  loaded monsters, in load order, whose lowered name, location or loot contains the lowered
  query as a substring; when the query and these texts are ASCII, they are exactly the
  monsters in which the query matches case-insensitively as a substring of the name, the
  location or the loot.
\<close>

theorem search_monsters_lowered:
  assumes "query \<noteq> []" and "load_monsters R fs = Inr monsters"
  shows "search_monsters R fs query =
       Inr (filter (\<lambda>m. occurs_in (py_lower R query) (py_lower R (m_name m)) \<or>
                         occurs_in (py_lower R query) (py_lower R (m_location m)) \<or>
                         occurs_in (py_lower R query) (py_lower R (m_loot m))) monsters) \<and>
     (is_ascii query \<and> (\<forall>m \<in> set monsters. ascii_texts m) \<longrightarrow>
      search_monsters R fs query =
        Inr (filter (\<lambda>m. matches_ci query (m_name m) \<or> matches_ci query (m_location m) \<or>
                          matches_ci query (m_loot m)) monsters))"
proof -
  have s: "search_monsters R fs query =
       Inr (filter (\<lambda>m. str_contains (py_lower R query) (py_lower R (m_name m)) \<or>
                         str_contains (py_lower R query) (py_lower R (m_location m)) \<or>
                         str_contains (py_lower R query) (py_lower R (m_loot m))) monsters)"
    using assms by (simp add: search_monsters_def andthen_def Let_def)
  have "filter (\<lambda>m. str_contains (py_lower R query) (py_lower R (m_name m)) \<or>
                     str_contains (py_lower R query) (py_lower R (m_location m)) \<or>
                     str_contains (py_lower R query) (py_lower R (m_loot m))) monsters =
        filter (\<lambda>m. matches_ci query (m_name m) \<or> matches_ci query (m_location m) \<or>
                     matches_ci query (m_loot m)) monsters"
    if "is_ascii query" "\<forall>m \<in> set monsters. ascii_texts m"
    using that by (intro filter_cong) (auto simp: ascii_texts_def py_lower_ascii matches_ci_code)
  with s show ?thesis
    by (simp add: str_contains_occurs)
qed

text \<open>
  Claim C2: a query that matches the location of the one loaded monster up to case, and one
  that matches nothing.
\<close>

theorem search_monsters_lowered_witness:
  "''SEW'' \<noteq> [] \<and> load_monsters plain fs_rat = Inr [rat_monster] \<and>
   is_ascii ''SEW'' \<and> ascii_texts rat_monster \<and>
   matches_ci ''SEW'' (m_location rat_monster) \<and>
   search_monsters plain fs_rat ''SEW'' = Inr [rat_monster] \<and>
   search_monsters plain fs_rat ''dragon'' = Inr []"
proof -
  have q1: "''SEW'' \<noteq> []" and q2: "''dragon'' \<noteq> []" by simp_all
  have l: "load_monsters plain fs_rat = Inr [rat_monster]" by (rule load_monsters_fs_rat)
  have a: "is_ascii ''SEW''" "is_ascii ''dragon''" "ascii_texts rat_monster"
    by (simp_all add: is_ascii_def ascii_texts_def rat_monster_def)
  show ?thesis
    using search_monsters_lowered [OF q1 l] search_monsters_lowered [OF q2 l] l a
    by (simp add: matches_ci_code str_contains_occurs [symmetric] py_lower_def is_ascii_def
        rat_monster_def ascii_lower_def lower_char_def)
qed

text \<open>
  Claim C2: as stated the claim fails.  The capital sigma occurs in the name made of the
  capital alpha and the capital sigma, but the name is lowered with the final sigma and the
  query with the small sigma, so the monster of that name is not returned.
\<close>

theorem search_monsters_sigma_counterexample:
  "sigma \<noteq> [] \<and>
   load_monsters greek fs_sigma = Inr [sigma_monster] \<and>
   m_name sigma_monster = [CHR 0xCE, CHR 0x91] @ sigma \<and>
   matches_ci sigma (m_name sigma_monster) \<and>
   search_monsters greek fs_sigma sigma = Inr []"
proof -
  have l: "load_monsters greek fs_sigma = Inr [sigma_monster]"
    by (simp add: fs_sigma_def sigma_monster_def eval_defs)
  have n: "m_name sigma_monster = [CHR 0xCE, CHR 0x91] @ sigma"
    by (simp add: sigma_monster_def alpha_sigma_def sigma_def)
  have m: "matches_ci sigma (m_name sigma_monster)"
    unfolding matches_ci_def n by blast
  have ne: "sigma \<noteq> []"
    by (simp add: sigma_def)
  have lowered: "py_lower greek sigma = [CHR 0xCF, CHR 0x83]"
    "py_lower greek alpha_sigma = [CHR 0xCE, CHR 0xB1, CHR 0xCF, CHR 0x82]"
    "py_lower greek ''Delphi'' = ''delphi''" "py_lower greek ''Gold'' = ''gold''"
    by (simp_all add: py_lower_def is_ascii_def ascii_lower_def lower_char_def greek_def
        plain_def sigma_def alpha_sigma_def)
  have s: "search_monsters greek fs_sigma sigma = Inr []"
    by (simp add: search_monsters_def l andthen_def Let_def sigma_monster_def ne lowered)
  from ne l n m s show ?thesis by simp
qed

text \<open>
  Claim C3: as stated the claim fails for a blank query: a query of one space is not
  treated as empty, it is searched for, and a monster without a space in its three texts
  is not returned although it is loaded.
\<close>

theorem search_monsters_blank_counterexample:
  "search_monsters plain fs_rat '' '' = Inr [] \<and>
   load_monsters plain fs_rat = Inr [rat_monster]"
  by (simp add: search_monsters_def load_monsters_fs_rat andthen_def rat_monster_def
      py_lower_def is_ascii_def ascii_lower_def lower_char_def Let_def)

text \<open>
  Claim C3: as amended: for the empty query \<^verbatim>\<open>search_monsters\<close> returns what
  \<^verbatim>\<open>load_monsters\<close> returns.
\<close>

theorem search_monsters_empty_query: "search_monsters R fs [] = load_monsters R fs"
  by (simp add: search_monsters_def)

text \<open>
  Claim C3: the empty query on a file with one monster.
\<close>

theorem search_monsters_empty_query_witness:
  "search_monsters plain fs_rat [] = Inr [rat_monster]"
  using search_monsters_empty_query [of plain fs_rat] by (simp add: load_monsters_fs_rat)

subsection \<open>Server information\<close>

text \<open>
  Claim C10: \<^verbatim>\<open>load_server_info\<close> validates no field: from every non-empty mapping it
  builds a record, with the defaults server\_001, Fibula Project, 7.1, the empty
  description and the empty rates for absent keys; it returns None exactly when the
  document is absent (None), is not a mapping, or is the empty mapping.
\<close>

theorem load_server_info_defaults:
  assumes "load_json fs SERVER_INFO_FILE = Inr data"
  shows "(load_server_info R fs = Inr None \<longleftrightarrow>
            data = PNone \<or> \<not> is_dict data \<or> data = PDict []) \<and>
         (\<forall>kvs. data = PDict kvs \<and> kvs \<noteq> [] \<longrightarrow>
            load_server_info R fs = Inr (Some
              \<lparr>si_id = py_str R (case dict_get kvs ''id'' of Some v \<Rightarrow> v | None \<Rightarrow> PStr ''server_001''),
               si_name = py_str R (case dict_get kvs ''name'' of Some v \<Rightarrow> v | None \<Rightarrow> PStr ''Fibula Project''),
               si_description = py_str R (case dict_get kvs ''description'' of Some v \<Rightarrow> v | None \<Rightarrow> PStr []),
               si_rates = (case dict_get kvs ''rates'' of Some v \<Rightarrow> v | None \<Rightarrow> PDict []),
               si_version = py_str R (case dict_get kvs ''version'' of Some v \<Rightarrow> v | None \<Rightarrow> PStr ''7.1''),
               si_website = (case dict_get kvs ''website'' of Some v \<Rightarrow> v | None \<Rightarrow> PNone),
               si_discord = (case dict_get kvs ''discord'' of Some v \<Rightarrow> v | None \<Rightarrow> PNone),
               si_additional_info = (case dict_get kvs ''additional_info'' of Some v \<Rightarrow> v | None \<Rightarrow> PNone)\<rparr>))"
proof -
  have build: "build_server_info R (PDict kvs) = Inr
      \<lparr>si_id = py_str R (case dict_get kvs ''id'' of Some v \<Rightarrow> v | None \<Rightarrow> PStr ''server_001''),
       si_name = py_str R (case dict_get kvs ''name'' of Some v \<Rightarrow> v | None \<Rightarrow> PStr ''Fibula Project''),
       si_description = py_str R (case dict_get kvs ''description'' of Some v \<Rightarrow> v | None \<Rightarrow> PStr []),
       si_rates = (case dict_get kvs ''rates'' of Some v \<Rightarrow> v | None \<Rightarrow> PDict []),
       si_version = py_str R (case dict_get kvs ''version'' of Some v \<Rightarrow> v | None \<Rightarrow> PStr ''7.1''),
       si_website = (case dict_get kvs ''website'' of Some v \<Rightarrow> v | None \<Rightarrow> PNone),
       si_discord = (case dict_get kvs ''discord'' of Some v \<Rightarrow> v | None \<Rightarrow> PNone),
       si_additional_info = (case dict_get kvs ''additional_info'' of Some v \<Rightarrow> v | None \<Rightarrow> PNone)\<rparr>"
    for kvs
    by (simp add: build_server_info_def andthen_def split: option.splits)
  show ?thesis
  proof (cases data)
    case (PDict kvs)
    with assms build [of kvs] show ?thesis
      by (simp add: load_server_info_def andthen_def)
  qed (use assms in \<open>simp_all add: load_server_info_def andthen_def\<close>)
qed

text \<open>
  Claim C10: a file with a name only gets every default; an empty object gives None.
\<close>

theorem load_server_info_defaults_witness:
  "load_json fs_server SERVER_INFO_FILE = Inr (PDict [(KStr ''name'', PStr ''Fibula'')]) \<and>
   load_server_info plain fs_server = Inr (Some
     \<lparr>si_id = ''server_001'', si_name = ''Fibula'', si_description = [], si_rates = PDict [],
      si_version = ''7.1'', si_website = PNone, si_discord = PNone,
      si_additional_info = PNone\<rparr>) \<and>
   load_json fs_server_empty SERVER_INFO_FILE = Inr (PDict []) \<and>
   load_server_info plain fs_server_empty = Inr None"
proof -
  have d1: "load_json fs_server SERVER_INFO_FILE = Inr (PDict [(KStr ''name'', PStr ''Fibula'')])"
    by (simp add: fs_server_def dict_of_members_def)
  have d2: "load_json fs_server_empty SERVER_INFO_FILE = Inr (PDict [])"
    by (simp add: fs_server_empty_def dict_of_members_def)
  show ?thesis
    using load_server_info_defaults [OF d1, of plain] load_server_info_defaults [OF d2, of plain]
      d1 d2
    by (simp add: dict_get_def)
qed

end
